theory Spec2Isabelle
  imports Complex_Main "HOL-Library.Word" "HOL-Library.Sublist"
begin

section \<open>JavaScript values shared by the three programs\<close>

text \<open>
  A value of type \<open>string | undefined\<close> (an environment variable, an optional field of an
  SDK response) is a \<open>string option\<close>, with \<open>None\<close> for \<open>undefined\<close>.
  \<open>falsy\<close> is the operator \<open>!x\<close> on such a value, \<open>or_else\<close> is \<open>x || d\<close>, and
  \<open>template\<close> is the text a template literal \<open>${x}\<close> inserts.
\<close>

definition falsy :: "string option \<Rightarrow> bool" where
  "falsy x = (case x of None \<Rightarrow> True | Some s \<Rightarrow> s = [])"

definition or_else :: "string option \<Rightarrow> string \<Rightarrow> string" where
  "or_else x d = (case x of None \<Rightarrow> d | Some s \<Rightarrow> if s = [] then d else s)"

definition template :: "string option \<Rightarrow> string" where
  "template x = (case x of None \<Rightarrow> ''undefined'' | Some s \<Rightarrow> s)"

text \<open>
  What a \<open>throw\<close> carries: an \<open>Error\<close> object with its message (the scripts build these
  with \<open>new Error(...)\<close>, the runtime with \<open>TypeError\<close>), an exception of the SDK
  client with its name and message, or any other thrown value, kept as the text
  \<open>String(value)\<close> gives. \<open>message\<close> is the handler's
  \<open>error instanceof Error ? error.message : String(error)\<close>.
\<close>

datatype exn = Error string | ServiceException string string | Thrown string

fun message :: "exn \<Rightarrow> string" where
  "message (Error m) = m"
| "message (ServiceException name m) = m"
| "message (Thrown text) = text"

text \<open>
  The result of running an \<open>async\<close> function for a bounded number of polls: it returned,
  it threw, or the poll budget ran out while it was still waiting.
\<close>

datatype 'a outcome = Returned 'a | Threw exn | StillPolling

section \<open>deploy-agent.ts: the control plane and the deployment script\<close>

text \<open>
  The commands of \<open>@aws-sdk/client-bedrock-agentcore-control\<close> that the script sends,
  with the inputs it fills in. \<open>CreateAgentRuntimeCommand\<close> carries
  \<open>agentRuntimeName\<close>, \<open>containerUri\<close>, \<open>networkMode\<close>, \<open>roleArn\<close>;
  \<open>UpdateAgentRuntimeCommand\<close> carries \<open>agentRuntimeId\<close>, \<open>containerUri\<close>,
  \<open>roleArn\<close>, \<open>networkMode\<close>, in the order of the source.
\<close>

datatype command =
    ListAgentRuntimesCommand
  | GetAgentRuntimeCommand "string option"
  | CreateAgentRuntimeCommand string string string "string option"
  | UpdateAgentRuntimeCommand "string option" string "string option" string

record AgentRuntime =
  agentRuntimeName :: "string option"
  agentRuntimeId :: "string option"

record ListAgentRuntimesResponse =
  agentRuntimes :: "AgentRuntime list option"

text \<open>The response to a create or an update: the script reads its id and its ARN.\<close>

record RuntimeResponse =
  responseAgentRuntimeId :: "string option"
  responseAgentRuntimeArn :: "string option"

text \<open>
  The response to \<open>GetAgentRuntimeCommand\<close>: the runtime's descriptor. The script reads
  \<open>status\<close> and \<open>failureReason\<close>; \<open>agentRuntimeArn\<close> stands for the rest of it.
\<close>

record GetAgentRuntimeResponse =
  status :: "string option"
  failureReason :: "string option"
  agentRuntimeArn :: "string option"

text \<open>
  The control plane behind \<open>agentCoreClient.send\<close>: what it answers to each command, an
  exception or a response. The answer to the \<open>n\<close>-th poll (counted from 0) may differ
  from the one before.
\<close>

record control_plane =
  ListAgentRuntimes :: "exn + ListAgentRuntimesResponse"
  CreateAgentRuntime :: "command \<Rightarrow> exn + RuntimeResponse"
  UpdateAgentRuntime :: "command \<Rightarrow> exn + RuntimeResponse"
  GetAgentRuntime :: "nat \<Rightarrow> string option \<Rightarrow> exn + GetAgentRuntimeResponse"

text \<open>
  The environment variables the script validates. \<open>AWS_REGION\<close> only configures the
  client and has no part in what follows.
\<close>

record deploy_env =
  ROLE_ARN :: "string option"
  REPO_URI :: "string option"

text \<open>What the script does that the outside can see, in order.\<close>

datatype event =
    Sent command
  | Slept nat
  | ConsoleLog string
  | ConsoleError string exn

definition AGENT_NAME :: string where
  "AGENT_NAME = ''agentcore_deployment''"

text \<open>
  Sequencing of awaited steps: a step yields its events and an outcome, and the
  continuation runs only when the step returned.
\<close>

definition await :: "event list \<times> 'a outcome \<Rightarrow> ('a \<Rightarrow> event list \<times> 'b outcome) \<Rightarrow> event list \<times> 'b outcome" where
  "await m f =
     (case snd m of
        Returned x \<Rightarrow> (fst m @ fst (f x), snd (f x))
      | Threw e \<Rightarrow> (fst m, Threw e)
      | StillPolling \<Rightarrow> (fst m, StillPolling))"

definition console_log :: "string \<Rightarrow> event list \<times> unit outcome" where
  "console_log s = ([ConsoleLog s], Returned ())"

definition send :: "command \<Rightarrow> exn + 'r \<Rightarrow> event list \<times> 'r outcome" where
  "send c answer = ([Sent c], case answer of Inl e \<Rightarrow> Threw e | Inr r \<Rightarrow> Returned r)"

text \<open>The runtimes of a listing, as \<open>response.agentRuntimes || []\<close> reads them.\<close>

definition listed :: "ListAgentRuntimesResponse \<Rightarrow> AgentRuntime list" where
  "listed response = (case agentRuntimes response of None \<Rightarrow> [] | Some rs \<Rightarrow> rs)"

text \<open>\<open>Array.prototype.find\<close> is \<^const>\<open>find\<close>: the first element that satisfies the test.\<close>

definition findExistingAgent :: "control_plane \<Rightarrow> event list \<times> AgentRuntime option outcome" where
  "findExistingAgent cp =
     await (send ListAgentRuntimesCommand (ListAgentRuntimes cp)) (\<lambda>response.
       ([], Returned (find (\<lambda>a. agentRuntimeName a = Some AGENT_NAME) (listed response))))"

text \<open>
  \<open>waitForReady\<close>: the \<open>do ... while\<close> loop. Each iteration sleeps 10000 ms, sends
  \<open>GetAgentRuntimeCommand\<close>, logs the status, throws on a failed status and goes round
  again while the status is \<open>CREATING\<close> or \<open>UPDATING\<close>. The source has no bound on the
  number of iterations; the first argument is the number of polls observed, and
  \<open>StillPolling\<close> is the loop still going after them. The third argument counts the polls
  already made.
\<close>

primrec waitForReady_from :: "nat \<Rightarrow> control_plane \<Rightarrow> nat \<Rightarrow> string option \<Rightarrow> event list \<times> string option outcome" where
  "waitForReady_from 0 cp n runtimeId = ([], StillPolling)"
| "waitForReady_from (Suc fuel) cp n runtimeId =
     await ([Slept 10000], Returned ()) (\<lambda>_.
     await (send (GetAgentRuntimeCommand runtimeId) (GetAgentRuntime cp n runtimeId)) (\<lambda>res.
     await (console_log (''  Status: '' @ template (status res))) (\<lambda>_.
       if status res = Some ''CREATE_FAILED'' \<or> status res = Some ''UPDATE_FAILED''
       then ([], Threw (Error (''Deployment failed: '' @ or_else (failureReason res) ''Unknown'')))
       else if status res = Some ''CREATING'' \<or> status res = Some ''UPDATING''
       then waitForReady_from fuel cp (Suc n) runtimeId
       else ([], Returned (status res)))))"

definition waitForReady :: "nat \<Rightarrow> control_plane \<Rightarrow> string option \<Rightarrow> event list \<times> string option outcome" where
  "waitForReady fuel cp runtimeId = waitForReady_from fuel cp 0 runtimeId"

text \<open>The check mark of the two success messages, as its UTF-8 bytes.\<close>

definition check_mark :: string where
  "check_mark = [CHR 0xE2, CHR 0x9C, CHR 0x93]"

text \<open>
  The two branches of step 3. Both send one command built from the environment, wait
  for the runtime and print how to invoke it.
\<close>

definition update_existing :: "nat \<Rightarrow> control_plane \<Rightarrow> deploy_env \<Rightarrow> AgentRuntime \<Rightarrow> event list \<times> unit outcome" where
  "update_existing fuel cp env existingAgent =
     await (console_log (CHR 0x0A # ''Updating existing AgentCore Runtime: '' @ template (agentRuntimeId existingAgent))) (\<lambda>_.
     let command = UpdateAgentRuntimeCommand (agentRuntimeId existingAgent)
                     (template (REPO_URI env) @ '':latest'') (ROLE_ARN env) ''PUBLIC'' in
     await (send command (UpdateAgentRuntime cp command)) (\<lambda>response.
     await (console_log ''Waiting for runtime to be ready...'') (\<lambda>_.
     await (waitForReady fuel cp (responseAgentRuntimeId response)) (\<lambda>_.
     await (console_log (CHR 0x0A # check_mark @ '' Agent Runtime updated and READY!'')) (\<lambda>_.
     await (console_log (''Agent Runtime ARN: '' @ template (responseAgentRuntimeArn response))) (\<lambda>_.
     await (console_log (CHR 0x0A # ''To invoke:'')) (\<lambda>_.
     console_log (''AGENT_RUNTIME_ARN='' @ template (responseAgentRuntimeArn response)
                  @ '' npm run invoke '' @ CHR 0x22 # ''your prompt'' @ [CHR 0x22]))))))))"

definition create_new :: "nat \<Rightarrow> control_plane \<Rightarrow> deploy_env \<Rightarrow> event list \<times> unit outcome" where
  "create_new fuel cp env =
     await (console_log (CHR 0x0A # ''Creating AgentCore Runtime...'')) (\<lambda>_.
     let command = CreateAgentRuntimeCommand AGENT_NAME
                     (template (REPO_URI env) @ '':latest'') ''PUBLIC'' (ROLE_ARN env) in
     await (send command (CreateAgentRuntime cp command)) (\<lambda>response.
     await (console_log ''Waiting for runtime to be ready...'') (\<lambda>_.
     await (waitForReady fuel cp (responseAgentRuntimeId response)) (\<lambda>_.
     await (console_log (CHR 0x0A # check_mark @ '' Agent Runtime created and READY!'')) (\<lambda>_.
     await (console_log (''Agent Runtime ARN: '' @ template (responseAgentRuntimeArn response))) (\<lambda>_.
     await (console_log (CHR 0x0A # ''To invoke:'')) (\<lambda>_.
     console_log (''AGENT_RUNTIME_ARN='' @ template (responseAgentRuntimeArn response)
                  @ '' npm run invoke '' @ CHR 0x22 # ''your prompt'' @ [CHR 0x22]))))))))"

text \<open>
  The body of the \<open>try\<close> block: validate the two environment variables, look the agent
  up by name, then update it or create it.
\<close>

definition main_flow :: "nat \<Rightarrow> control_plane \<Rightarrow> deploy_env \<Rightarrow> event list \<times> unit outcome" where
  "main_flow fuel cp env =
     (if falsy (ROLE_ARN env) \<or> falsy (REPO_URI env)
      then ([], Threw (Error ''Missing required environment variables. Run setup-prerequisites.sh and export ROLE_ARN and REPO_URI.''))
      else
        await (console_log (''Role ARN: '' @ template (ROLE_ARN env))) (\<lambda>_.
        await (console_log (''Repository URI: '' @ template (REPO_URI env))) (\<lambda>_.
        await (findExistingAgent cp) (\<lambda>existingAgent.
          case existingAgent of
            Some existing \<Rightarrow> update_existing fuel cp env existing
          | None \<Rightarrow> create_new fuel cp env))))"

text \<open>
  The whole script: the \<open>catch\<close> clause prints the error and ends the process with
  exit code 1. \<open>None\<close> is the process still running, \<open>Some 0\<close> its normal end.
\<close>

definition deploy_agent :: "nat \<Rightarrow> control_plane \<Rightarrow> deploy_env \<Rightarrow> event list \<times> nat option" where
  "deploy_agent fuel cp env =
     (case snd (main_flow fuel cp env) of
        Returned _ \<Rightarrow> (fst (main_flow fuel cp env), Some 0)
      | Threw error \<Rightarrow> (fst (main_flow fuel cp env) @ [ConsoleError ''Deployment failed:'' error], Some 1)
      | StillPolling \<Rightarrow> (fst (main_flow fuel cp env), None))"

text \<open>Reading a trace: the commands sent, and which of them create or update.\<close>

definition sent :: "event list \<Rightarrow> command list" where
  "sent tr = [c. Sent c \<leftarrow> tr]"

fun is_create :: "command \<Rightarrow> bool" where
  "is_create (CreateAgentRuntimeCommand name uri mode role) = True"
| "is_create c = False"

fun is_update :: "command \<Rightarrow> bool" where
  "is_update (UpdateAgentRuntimeCommand rid uri role mode) = True"
| "is_update c = False"

fun is_get :: "command \<Rightarrow> bool" where
  "is_get (GetAgentRuntimeCommand rid) = True"
| "is_get c = False"

section \<open>invoke-agent.ts: the invocation client\<close>

text \<open>
  \<open>InvokeAgentRuntimeCommand\<close> with the four inputs the script fills in. Text is kept as
  its UTF-8 bytes, so \<open>new TextEncoder().encode\<close> turns each character into its byte.
\<close>

datatype invoke_command =
  InvokeAgentRuntimeCommand (commandArn: string) (runtimeSessionId: string)
    (payload: "8 word list") (qualifier: string)

definition TextEncoder_encode :: "string \<Rightarrow> 8 word list" where
  "TextEncoder_encode s = map (\<lambda>c. of_nat (of_char c)) s"

text \<open>\<open>Buffer.toString('hex')\<close>: two lower-case hexadecimal digits for each byte.\<close>

definition hex_digit :: "nat \<Rightarrow> char" where
  "hex_digit n = ''0123456789abcdef'' ! n"

definition toString_hex :: "8 word list \<Rightarrow> string" where
  "toString_hex bytes = concat (map (\<lambda>b. [hex_digit (unat b div 16), hex_digit (unat b mod 16)]) bytes)"

text \<open>
  What the script reads from its process (\<open>process.env.AGENT_RUNTIME_ARN\<close>,
  \<open>process.argv\<close>) and from outside it: the bytes \<open>crypto.randomBytes\<close> hands out for a
  requested length in this run, and the answer of the data plane to the command, an
  exception or a response whose optional \<open>response\<close> stream decodes to text or fails.
\<close>

record invoke_env =
  AGENT_RUNTIME_ARN :: "string option"
  argv :: "string list"
  randomBytes :: "nat \<Rightarrow> 8 word list"
  InvokeAgentRuntime :: "invoke_command \<Rightarrow> exn + (exn + string) option"

datatype invoke_event =
    InvokeSent invoke_command
  | Stdout string "string option"
  | Stderr string
  | StderrError string exn

text \<open>\<open>process.argv[i]\<close>: \<open>undefined\<close> past the end of the array.\<close>

definition argv_at :: "string list \<Rightarrow> nat \<Rightarrow> string option" where
  "argv_at args i = (if i < length args then Some (args ! i) else None)"

text \<open>
  The script from top to bottom; the second component is the exit code. After the check
  of step 2 the ARN is a string, which \<^const>\<open>the\<close> reads.
\<close>

definition invoke_agent :: "invoke_env \<Rightarrow> invoke_event list \<times> nat" where
  "invoke_agent env =
     (let PROMPT = or_else (argv_at (argv env) 2) ''What is the weather now?'' in
      if falsy (AGENT_RUNTIME_ARN env)
      then ([Stderr ''AGENT_RUNTIME_ARN environment variable is required''], 1)
      else
        let sessionId = toString_hex (randomBytes env 17);
            command = InvokeAgentRuntimeCommand (the (AGENT_RUNTIME_ARN env)) sessionId
                        (TextEncoder_encode PROMPT) ''DEFAULT''
        in case InvokeAgentRuntime env command of
             Inl error \<Rightarrow> ([InvokeSent command, StderrError ''Invocation failed:'' error], 1)
           | Inr None \<Rightarrow> ([InvokeSent command, Stdout ''Agent Response:'' None], 0)
           | Inr (Some (Inl error)) \<Rightarrow> ([InvokeSent command, StderrError ''Invocation failed:'' error], 1)
           | Inr (Some (Inr responseBody)) \<Rightarrow>
               ([InvokeSent command, Stdout ''Agent Response:'' (Some responseBody)], 0))"

definition invocations_sent :: "invoke_event list \<Rightarrow> invoke_command list" where
  "invocations_sent tr = [c. InvokeSent c \<leftarrow> tr]"

section \<open>agent.ts: the calculator tool and the invocation endpoint\<close>

text \<open>
  The calculator's \<open>operation\<close> is the enum of its input schema. JavaScript numbers are
  IEEE doubles; the callback is written over any type of numbers \<open>'n\<close>, with the four
  arithmetic operators and the test \<open>x !== 0\<close> as parameters, so that nothing here
  depends on how doubles round. The callback returns a number or a string.
\<close>

datatype operation = Add | Subtract | Multiply | Divide

record 'n js_number =
  js_plus :: "'n \<Rightarrow> 'n \<Rightarrow> 'n"
  js_minus :: "'n \<Rightarrow> 'n \<Rightarrow> 'n"
  js_times :: "'n \<Rightarrow> 'n \<Rightarrow> 'n"
  js_divide :: "'n \<Rightarrow> 'n \<Rightarrow> 'n"
  js_not_zero :: "'n \<Rightarrow> bool"

datatype 'n tool_result = NumberResult 'n | StringResult string

definition calculatorTool :: "'n js_number \<Rightarrow> operation \<Rightarrow> 'n \<Rightarrow> 'n \<Rightarrow> 'n tool_result" where
  "calculatorTool js operation a b =
     (case operation of
        Add \<Rightarrow> NumberResult (js_plus js a b)
      | Subtract \<Rightarrow> NumberResult (js_minus js a b)
      | Multiply \<Rightarrow> NumberResult (js_times js a b)
      | Divide \<Rightarrow> if js_not_zero js b then NumberResult (js_divide js a b)
                  else StringResult ''Cannot divide by zero'')"

text \<open>
  \<open>req.body\<close> has type \<open>any\<close>: a JavaScript value. The text parser leaves a string, the
  JSON parser an object or an array; \<open>undefined\<close> and \<open>null\<close> are the values on which a
  member access throws.
\<close>

datatype js_value =
    Undefined
  | Null
  | Boolean bool
  | Number real
  | String string
  | Array "js_value list"
  | Object "(string \<times> js_value) list"

fun typeof_string :: "js_value \<Rightarrow> bool" where
  "typeof_string (String s) = True"
| "typeof_string v = False"

text \<open>
  \<open>v.k\<close> for a key that no prototype defines (\<open>input\<close>, \<open>prompt\<close>): a \<open>TypeError\<close> on
  \<open>undefined\<close> and \<open>null\<close>, the field of an object, \<open>undefined\<close> on anything else.
  \<open>v?.k\<close> is \<open>undefined\<close> where \<open>v.k\<close> would throw.
\<close>

fun member :: "js_value \<Rightarrow> string \<Rightarrow> exn + js_value" where
  "member Undefined k = Inl (Error (''Cannot read properties of undefined (reading '' @ CHR 0x27 # k @ CHR 0x27 # '')''))"
| "member Null k = Inl (Error (''Cannot read properties of null (reading '' @ CHR 0x27 # k @ CHR 0x27 # '')''))"
| "member (Object props) k = Inr (case map_of props k of None \<Rightarrow> Undefined | Some v \<Rightarrow> v)"
| "member v k = Inr Undefined"

fun optional_member :: "js_value \<Rightarrow> string \<Rightarrow> exn + js_value" where
  "optional_member Undefined k = Inr Undefined"
| "optional_member Null k = Inr Undefined"
| "optional_member v k = member v k"

text \<open>\<open>!v\<close> is \<open>\<not> truthy v\<close>.\<close>

fun truthy :: "js_value \<Rightarrow> bool" where
  "truthy Undefined = False"
| "truthy Null = False"
| "truthy (Boolean b) = b"
| "truthy (Number x) = (x \<noteq> 0)"
| "truthy (String s) = (s \<noteq> [])"
| "truthy (Array vs) = True"
| "truthy (Object props) = True"

record http_response =
  statusCode :: nat
  contentType :: "string option"
  responseText :: string

text \<open>
  The handler of \<open>POST /invocations\<close>. Its first argument is the agent:
  \<open>agent.invoke(userMessage)\<close> followed by \<open>result.toString()\<close>, which gives a text or
  throws. The handler returns the response and the list of messages the agent was
  invoked with.
\<close>

definition userMessage_of :: "js_value \<Rightarrow> exn + js_value" where
  "userMessage_of body =
     (if typeof_string body then Inr body
      else case member body ''input'' of
             Inl error \<Rightarrow> Inl error
           | Inr input \<Rightarrow> optional_member input ''prompt'')"

definition invocations :: "(js_value \<Rightarrow> exn + string) \<Rightarrow> js_value \<Rightarrow> http_response \<times> js_value list" where
  "invocations agent_invoke body =
     (case userMessage_of body of
        Inl error \<Rightarrow>
          (\<lparr>statusCode = 500, contentType = None, responseText = ''Error: '' @ message error\<rparr>, [])
      | Inr userMessage \<Rightarrow>
          if truthy userMessage
          then (case agent_invoke userMessage of
                  Inl error \<Rightarrow>
                    (\<lparr>statusCode = 500, contentType = None, responseText = ''Error: '' @ message error\<rparr>,
                     [userMessage])
                | Inr result \<Rightarrow>
                    (\<lparr>statusCode = 200, contentType = Some ''text/plain'', responseText = result\<rparr>,
                     [userMessage]))
          else (\<lparr>statusCode = 400, contentType = None, responseText = ''No prompt provided''\<rparr>, []))"


section \<open>Example environments\<close>

text \<open>
  A control plane that lists the given runtimes, answers a create with a new id, an
  update with the id it was given, and the \<open>n\<close>-th poll with the descriptor \<open>polls n\<close>.
\<close>

definition descriptor :: "string \<Rightarrow> string option \<Rightarrow> string \<Rightarrow> GetAgentRuntimeResponse" where
  "descriptor st reason arn = \<lparr>status = Some st, failureReason = reason, agentRuntimeArn = Some arn\<rparr>"

definition example_plane :: "AgentRuntime list \<Rightarrow> (nat \<Rightarrow> GetAgentRuntimeResponse) \<Rightarrow> control_plane" where
  "example_plane listing polls =
     \<lparr>ListAgentRuntimes = Inr \<lparr>agentRuntimes = Some listing\<rparr>,
      CreateAgentRuntime = (\<lambda>c. Inr \<lparr>responseAgentRuntimeId = Some ''rt-new'', responseAgentRuntimeArn = Some ''arn:rt-new''\<rparr>),
      UpdateAgentRuntime = (\<lambda>c. case c of
           UpdateAgentRuntimeCommand rid uri role mode \<Rightarrow>
             Inr \<lparr>responseAgentRuntimeId = rid, responseAgentRuntimeArn = Some ''arn:rt''\<rparr>
         | _ \<Rightarrow> Inl (ServiceException ''ValidationException'' ''not an update'')),
      GetAgentRuntime = (\<lambda>n rid. Inr (polls n))\<rparr>"

definition example_env :: deploy_env where
  "example_env = \<lparr>ROLE_ARN = Some ''arn:aws:iam::1:role/r'', REPO_URI = Some ''1.dkr.ecr/repo''\<rparr>"

text \<open>A listed runtime that carries the name the script deploys under.\<close>

definition named :: "string \<Rightarrow> AgentRuntime" where
  "named rid = \<lparr>agentRuntimeName = Some ''agentcore_deployment'', agentRuntimeId = Some rid\<rparr>"

text \<open>
  An invocation environment with the given command line, whose random source hands out
  the byte \<open>seed\<close> repeated and whose runtime answers \<open>sunny\<close>.
\<close>

definition example_invoke_env :: "string list \<Rightarrow> 8 word \<Rightarrow> invoke_env" where
  "example_invoke_env args seed =
     \<lparr>AGENT_RUNTIME_ARN = Some ''arn:aws:bedrock-agentcore:us-east-1:1:runtime/rt'',
      argv = args,
      randomBytes = (\<lambda>n. replicate n seed),
      InvokeAgentRuntime = (\<lambda>c. Inr (Some (Inr ''sunny'')))\<rparr>"

text \<open>The calculator over the real numbers.\<close>

definition real_numbers :: "real js_number" where
  "real_numbers = \<lparr>js_plus = (+), js_minus = (-), js_times = (*), js_divide = (/), js_not_zero = (\<lambda>x. x \<noteq> 0)\<rparr>"

section \<open>Traces of the deployment script\<close>

lemma await_simps:
  "await (tr, Returned x) f = (tr @ fst (f x), snd (f x))"
  "await (tr, Threw e) f = (tr, Threw e)"
  "await (tr, StillPolling) f = (tr, StillPolling)"
  by (simp_all add: await_def)

lemma sent_simps [simp]:
  "sent [] = []"
  "sent (Sent c # tr) = c # sent tr"
  "sent (Slept n # tr) = sent tr"
  "sent (ConsoleLog s # tr) = sent tr"
  "sent (ConsoleError s e # tr) = sent tr"
  "sent (tr @ tr') = sent tr @ sent tr'"
  by (simp_all add: sent_def)

lemma sent_fst_await:
  "sent (fst (await m f)) =
     sent (fst m) @ (case snd m of Returned x \<Rightarrow> sent (fst (f x)) | Threw e \<Rightarrow> [] | StillPolling \<Rightarrow> [])"
  by (cases m; cases "snd m") (auto simp: await_def)

subsection \<open>One iteration of the polling loop\<close>

lemma poll_exception:
  "GetAgentRuntime cp n rid = Inl e \<Longrightarrow>
   waitForReady_from (Suc fuel) cp n rid = ([Slept 10000, Sent (GetAgentRuntimeCommand rid)], Threw e)"
  by (simp add: send_def await_simps)

lemma poll_failed:
  "GetAgentRuntime cp n rid = Inr res \<Longrightarrow>
   status res = Some ''CREATE_FAILED'' \<or> status res = Some ''UPDATE_FAILED'' \<Longrightarrow>
   waitForReady_from (Suc fuel) cp n rid =
     ([Slept 10000, Sent (GetAgentRuntimeCommand rid), ConsoleLog (''  Status: '' @ template (status res))],
      Threw (Error (''Deployment failed: '' @ or_else (failureReason res) ''Unknown'')))"
  by (auto simp add: send_def console_log_def await_simps)

lemma poll_in_progress:
  "GetAgentRuntime cp n rid = Inr res \<Longrightarrow>
   status res = Some ''CREATING'' \<or> status res = Some ''UPDATING'' \<Longrightarrow>
   waitForReady_from (Suc fuel) cp n rid =
     ([Slept 10000, Sent (GetAgentRuntimeCommand rid), ConsoleLog (''  Status: '' @ template (status res))]
        @ fst (waitForReady_from fuel cp (Suc n) rid),
      snd (waitForReady_from fuel cp (Suc n) rid))"
  by (auto simp add: send_def console_log_def await_simps)

lemma poll_other:
  "GetAgentRuntime cp n rid = Inr res \<Longrightarrow>
   status res \<noteq> Some ''CREATE_FAILED'' \<Longrightarrow> status res \<noteq> Some ''UPDATE_FAILED'' \<Longrightarrow>
   status res \<noteq> Some ''CREATING'' \<Longrightarrow> status res \<noteq> Some ''UPDATING'' \<Longrightarrow>
   waitForReady_from (Suc fuel) cp n rid =
     ([Slept 10000, Sent (GetAgentRuntimeCommand rid), ConsoleLog (''  Status: '' @ template (status res))],
      Returned (status res))"
  by (simp add: send_def console_log_def await_simps)

text \<open>While the answers stay \<open>CREATING\<close> or \<open>UPDATING\<close>, each poll sends one more command.\<close>

lemma polls_in_progress:
  "\<forall>i<k. \<exists>res. GetAgentRuntime cp (n + i) rid = Inr res
       \<and> (status res = Some ''CREATING'' \<or> status res = Some ''UPDATING'') \<Longrightarrow>
   snd (waitForReady_from (k + fuel) cp n rid) = snd (waitForReady_from fuel cp (n + k) rid) \<and>
   filter is_get (sent (fst (waitForReady_from (k + fuel) cp n rid)))
     = replicate k (GetAgentRuntimeCommand rid) @ filter is_get (sent (fst (waitForReady_from fuel cp (n + k) rid)))"
proof (induction k arbitrary: n)
  case 0
  show ?case by simp
next
  case (Suc k)
  from Suc.prems [rule_format, of 0] obtain res where
    res: "GetAgentRuntime cp n rid = Inr res" "status res = Some ''CREATING'' \<or> status res = Some ''UPDATING''"
    by auto
  have "\<forall>i<k. \<exists>res. GetAgentRuntime cp (Suc n + i) rid = Inr res
          \<and> (status res = Some ''CREATING'' \<or> status res = Some ''UPDATING'')"
  proof (intro allI impI)
    fix i assume "i < k"
    then have "Suc i < Suc k" by simp
    from Suc.prems [rule_format, OF this]
    show "\<exists>res. GetAgentRuntime cp (Suc n + i) rid = Inr res
            \<and> (status res = Some ''CREATING'' \<or> status res = Some ''UPDATING'')"
      by simp
  qed
  from Suc.IH [OF this] show ?case
    using poll_in_progress [OF res, of "k + fuel"] by (simp del: waitForReady_from.simps)
qed

lemma sent_waitForReady_from:
  "set (sent (fst (waitForReady_from fuel cp n rid))) \<subseteq> {GetAgentRuntimeCommand rid}"
proof (induction fuel arbitrary: n)
  case 0
  show ?case by simp
next
  case (Suc fuel)
  show ?case
  proof (cases "GetAgentRuntime cp n rid")
    case (Inl e)
    then show ?thesis by (simp add: send_def await_simps)
  next
    case (Inr res)
    with Suc [of "Suc n"] show ?thesis
      by (simp add: send_def console_log_def await_simps)
  qed
qed

lemma no_create_while_waiting: "filter is_create (sent (fst (waitForReady fuel cp rid))) = []"
  using sent_waitForReady_from [of fuel cp 0 rid]
  by (auto simp: waitForReady_def filter_empty_conv)

lemma no_update_while_waiting: "filter is_update (sent (fst (waitForReady fuel cp rid))) = []"
  using sent_waitForReady_from [of fuel cp 0 rid]
  by (auto simp: waitForReady_def filter_empty_conv)

lemma waitForReady_from_ignores_listing:
  "waitForReady_from fuel (cp\<lparr>ListAgentRuntimes := l\<rparr>) n rid = waitForReady_from fuel cp n rid"
  by (induction fuel arbitrary: n) (simp_all cong: if_cong)

lemma example_polls [simp]: "GetAgentRuntime (example_plane listing polls) n rid = Inr (polls n)"
  by (simp add: example_plane_def)

subsection \<open>The commands of a whole run\<close>

lemma sent_create_new:
  "sent (fst (create_new fuel cp env)) =
     (let command = CreateAgentRuntimeCommand AGENT_NAME (template (REPO_URI env) @ '':latest'') ''PUBLIC'' (ROLE_ARN env)
      in command # (case CreateAgentRuntime cp command of
                      Inl e \<Rightarrow> []
                    | Inr response \<Rightarrow> sent (fst (waitForReady fuel cp (responseAgentRuntimeId response)))))"
  by (simp add: create_new_def console_log_def send_def Let_def sent_fst_await split: sum.splits outcome.splits)

lemma sent_update_existing:
  "sent (fst (update_existing fuel cp env a)) =
     (let command = UpdateAgentRuntimeCommand (agentRuntimeId a) (template (REPO_URI env) @ '':latest'') (ROLE_ARN env) ''PUBLIC''
      in command # (case UpdateAgentRuntime cp command of
                      Inl e \<Rightarrow> []
                    | Inr response \<Rightarrow> sent (fst (waitForReady fuel cp (responseAgentRuntimeId response)))))"
  by (simp add: update_existing_def console_log_def send_def Let_def sent_fst_await split: sum.splits outcome.splits)

lemma update_existing_ignores_listing:
  "update_existing fuel (cp\<lparr>ListAgentRuntimes := l\<rparr>) env a = update_existing fuel cp env a"
  by (simp add: update_existing_def waitForReady_def waitForReady_from_ignores_listing)

lemma sent_deploy_agent: "sent (fst (deploy_agent fuel cp env)) = sent (fst (main_flow fuel cp env))"
  by (simp add: deploy_agent_def split: outcome.splits)

lemma sent_main_flow:
  "\<not> falsy (ROLE_ARN env) \<Longrightarrow> \<not> falsy (REPO_URI env) \<Longrightarrow> ListAgentRuntimes cp = Inr response \<Longrightarrow>
   sent (fst (main_flow fuel cp env)) =
     ListAgentRuntimesCommand #
       (case find (\<lambda>a. agentRuntimeName a = Some AGENT_NAME) (listed response) of
          Some a \<Rightarrow> sent (fst (update_existing fuel cp env a))
        | None \<Rightarrow> sent (fst (create_new fuel cp env)))"
  by (simp add: main_flow_def findExistingAgent_def console_log_def send_def await_simps
           split: option.splits)

lemma find_first_match:
  "\<forall>x \<in> set before. \<not> P x \<Longrightarrow> P a \<Longrightarrow> find P (before @ a # after) = Some a"
  by (induction before) simp_all

lemma main_flow_found:
  assumes "\<not> falsy (ROLE_ARN env)" and "\<not> falsy (REPO_URI env)"
    and "ListAgentRuntimes cp = Inr response"
    and "find (\<lambda>a. agentRuntimeName a = Some AGENT_NAME) (listed response) = Some a"
  shows "main_flow fuel cp env =
     ([ConsoleLog (''Role ARN: '' @ template (ROLE_ARN env)),
       ConsoleLog (''Repository URI: '' @ template (REPO_URI env)),
       Sent ListAgentRuntimesCommand] @ fst (update_existing fuel cp env a),
      snd (update_existing fuel cp env a))"
  using assms
  by (simp add: main_flow_def findExistingAgent_def console_log_def send_def await_simps)

section \<open>The invocation client and the endpoint: auxiliary facts\<close>






lemma undefined_body_is_500:
  "invocations agent_invoke Undefined
     = (\<lparr>statusCode = 500, contentType = None,
         responseText = ''Error: Cannot read properties of undefined (reading '' @ CHR 0x27 # ''input'' @ CHR 0x27 # '')''\<rparr>,
        [])"
  by (simp add: invocations_def userMessage_of_def)

section \<open>The claims\<close>

subsection \<open>C1: a status the poller does not know\<close>

text \<open>
  Claim C1 says that a status other than \<open>CREATING\<close>, \<open>UPDATING\<close>, \<open>READY\<close>,
  \<open>CREATE_FAILED\<close> and \<open>UPDATE_FAILED\<close> makes the poller sleep and poll again. The loop
  of \<open>waitForReady\<close> goes round again only on \<open>CREATING\<close> and \<open>UPDATING\<close>: when
  the polls before poll \<open>n\<close> were in progress and poll \<open>n\<close> answers with any status that
  is neither in progress nor failed (an unknown one, or none at all), \<open>waitForReady\<close>
  returns that status, and it has sent \<open>n + 1\<close> \<open>GetAgentRuntimeCommand\<close>s however many
  more polls it is allowed.
\<close>

theorem other_status_returns:
  assumes "\<forall>i<n. \<exists>r. GetAgentRuntime cp i rid = Inr r
             \<and> (status r = Some ''CREATING'' \<or> status r = Some ''UPDATING'')"
    and "GetAgentRuntime cp n rid = Inr res"
    and "status res \<noteq> Some ''CREATING''" and "status res \<noteq> Some ''UPDATING''"
    and "status res \<noteq> Some ''CREATE_FAILED''" and "status res \<noteq> Some ''UPDATE_FAILED''"
    and "n < fuel"
  shows "snd (waitForReady fuel cp rid) = Returned (status res)
       \<and> filter is_get (sent (fst (waitForReady fuel cp rid))) = replicate (Suc n) (GetAgentRuntimeCommand rid)"
proof -
  obtain m where fuel: "fuel = Suc (n + m)"
    using \<open>n < fuel\<close> less_imp_Suc_add by blast
  have "\<forall>i<n. \<exists>r. GetAgentRuntime cp (0 + i) rid = Inr r
          \<and> (status r = Some ''CREATING'' \<or> status r = Some ''UPDATING'')"
    using assms(1) by simp
  from polls_in_progress [OF this, of "Suc m"] poll_other [OF assms(2) assms(5,6,3,4), of m]
  show ?thesis
    by (simp add: waitForReady_def fuel replicate_append_same del: waitForReady_from.simps)
qed

text \<open>
  Witness for C1: the first poll answers \<open>DELETING\<close>; with ten polls allowed the poller
  returns \<open>DELETING\<close> after a single \<open>GetAgentRuntimeCommand\<close>.
\<close>

theorem other_status_returns_witness:
  "snd (waitForReady 10 (example_plane [] (\<lambda>n. descriptor ''DELETING'' None ''arn:rt'')) (Some ''rt''))
     = Returned (Some ''DELETING'')
   \<and> filter is_get (sent (fst (waitForReady 10 (example_plane [] (\<lambda>n. descriptor ''DELETING'' None ''arn:rt'')) (Some ''rt''))))
     = [GetAgentRuntimeCommand (Some ''rt'')]"
  using other_status_returns [of 0 "example_plane [] (\<lambda>n. descriptor ''DELETING'' None ''arn:rt'')" "Some ''rt''"
      "descriptor ''DELETING'' None ''arn:rt''" 10]
  by (simp add: descriptor_def)

text \<open>
  On that control plane the whole script then reports the runtime as created and
  \<open>READY\<close> and ends with exit code 0.
\<close>

lemma deleting_is_reported_ready:
  "ConsoleLog (CHR 0x0A # check_mark @ '' Agent Runtime created and READY!'')
     \<in> set (fst (deploy_agent 10 (example_plane [] (\<lambda>n. descriptor ''DELETING'' None ''arn:rt'')) example_env))
   \<and> snd (deploy_agent 10 (example_plane [] (\<lambda>n. descriptor ''DELETING'' None ''arn:rt'')) example_env) = Some 0"
proof -
  let ?plane = "example_plane [] (\<lambda>n. descriptor ''DELETING'' None ''arn:rt'')"
  have "waitForReady_from (Suc 9) ?plane 0 (Some ''rt-new'')
      = ([Slept 10000, Sent (GetAgentRuntimeCommand (Some ''rt-new'')), ConsoleLog ''  Status: DELETING''],
         Returned (Some ''DELETING''))"
    using poll_other [of ?plane 0 "Some ''rt-new''" "descriptor ''DELETING'' None ''arn:rt''" 9]
    by (simp add: descriptor_def template_def del: waitForReady_from.simps)
  then have wait: "waitForReady 10 ?plane (Some ''rt-new'')
      = ([Slept 10000, Sent (GetAgentRuntimeCommand (Some ''rt-new'')), ConsoleLog ''  Status: DELETING''],
         Returned (Some ''DELETING''))"
    by (simp add: waitForReady_def del: waitForReady_from.simps)
  have created: "CreateAgentRuntime ?plane c
      = Inr \<lparr>responseAgentRuntimeId = Some ''rt-new'', responseAgentRuntimeArn = Some ''arn:rt-new''\<rparr>" for c
    by (simp add: example_plane_def)
  have listing: "ListAgentRuntimes ?plane = Inr \<lparr>agentRuntimes = Some []\<rparr>"
    by (simp add: example_plane_def)
  show ?thesis
    by (simp add: deploy_agent_def main_flow_def findExistingAgent_def create_new_def wait created listing
          example_env_def listed_def falsy_def template_def send_def console_log_def await_simps)
qed

subsection \<open>C2: create when the name is absent, update when it is present\<close>

text \<open>
  Claim C2: once the configuration is valid and \<open>ListAgentRuntimes\<close> has answered, a
  listing without the name \<open>agentcore_deployment\<close> leads to exactly one
  \<open>CreateAgentRuntimeCommand\<close> and no \<open>UpdateAgentRuntimeCommand\<close>; a listing with an
  entry of that name leads to exactly one \<open>UpdateAgentRuntimeCommand\<close>, carrying the id
  of an entry of that name, the image \<open>REPO_URI:latest\<close>, the role and the network mode
  \<open>PUBLIC\<close>, and to no \<open>CreateAgentRuntimeCommand\<close>. This holds for every number of
  polls observed, whatever the control plane answers afterwards.
\<close>

theorem deploy_creates_or_updates:
  assumes "\<not> falsy (ROLE_ARN env)" and "\<not> falsy (REPO_URI env)"
    and "ListAgentRuntimes cp = Inr response"
  shows "((\<forall>a \<in> set (listed response). agentRuntimeName a \<noteq> Some AGENT_NAME) \<longrightarrow>
            filter is_create (sent (fst (deploy_agent fuel cp env)))
              = [CreateAgentRuntimeCommand AGENT_NAME (template (REPO_URI env) @ '':latest'') ''PUBLIC'' (ROLE_ARN env)]
          \<and> filter is_update (sent (fst (deploy_agent fuel cp env))) = [])
       \<and> ((\<exists>a \<in> set (listed response). agentRuntimeName a = Some AGENT_NAME) \<longrightarrow>
            (\<exists>a \<in> set (listed response). agentRuntimeName a = Some AGENT_NAME \<and>
               filter is_update (sent (fst (deploy_agent fuel cp env)))
                 = [UpdateAgentRuntimeCommand (agentRuntimeId a) (template (REPO_URI env) @ '':latest'')
                      (ROLE_ARN env) ''PUBLIC''])
          \<and> filter is_create (sent (fst (deploy_agent fuel cp env))) = [])"
proof (cases "find (\<lambda>a. agentRuntimeName a = Some AGENT_NAME) (listed response)")
  case None
  then have absent: "\<forall>a \<in> set (listed response). agentRuntimeName a \<noteq> Some AGENT_NAME"
    by (simp add: find_None_iff)
  have "sent (fst (deploy_agent fuel cp env)) = ListAgentRuntimesCommand # sent (fst (create_new fuel cp env))"
    using assms None by (simp add: sent_deploy_agent sent_main_flow)
  then show ?thesis
    using absent
    by (auto simp: sent_create_new Let_def no_create_while_waiting no_update_while_waiting split: sum.splits)
next
  case (Some a)
  then have present: "a \<in> set (listed response)" "agentRuntimeName a = Some AGENT_NAME"
    by (auto simp: find_Some_iff)
  have "sent (fst (deploy_agent fuel cp env)) = ListAgentRuntimesCommand # sent (fst (update_existing fuel cp env a))"
    using assms Some by (simp add: sent_deploy_agent sent_main_flow)
  then show ?thesis
    using present
    by (auto simp: sent_update_existing Let_def no_create_while_waiting no_update_while_waiting split: sum.splits)
qed

text \<open>
  Witness for C2: an empty listing gives the one create, a listing with the runtime
  \<open>rt-7\<close> of that name gives the one update of \<open>rt-7\<close>.
\<close>

theorem deploy_creates_or_updates_witness:
  "(filter is_create (sent (fst (deploy_agent 4 (example_plane [] (\<lambda>n. descriptor ''READY'' None ''arn:rt-new'')) example_env)))
      = [CreateAgentRuntimeCommand ''agentcore_deployment'' ''1.dkr.ecr/repo:latest'' ''PUBLIC'' (Some ''arn:aws:iam::1:role/r'')]
     \<and> filter is_update (sent (fst (deploy_agent 4 (example_plane [] (\<lambda>n. descriptor ''READY'' None ''arn:rt-new'')) example_env))) = [])
   \<and> (filter is_update (sent (fst (deploy_agent 4 (example_plane [named ''rt-7''] (\<lambda>n. descriptor ''READY'' None ''arn:rt'')) example_env)))
      = [UpdateAgentRuntimeCommand (Some ''rt-7'') ''1.dkr.ecr/repo:latest'' (Some ''arn:aws:iam::1:role/r'') ''PUBLIC'']
     \<and> filter is_create (sent (fst (deploy_agent 4 (example_plane [named ''rt-7''] (\<lambda>n. descriptor ''READY'' None ''arn:rt'')) example_env))) = [])"
  using deploy_creates_or_updates [of example_env "example_plane [] (\<lambda>n. descriptor ''READY'' None ''arn:rt-new'')"
          "\<lparr>agentRuntimes = Some []\<rparr>" 4]
        deploy_creates_or_updates [of example_env "example_plane [named ''rt-7''] (\<lambda>n. descriptor ''READY'' None ''arn:rt'')"
          "\<lparr>agentRuntimes = Some [named ''rt-7'']\<rparr>" 4]
  by (simp add: example_plane_def example_env_def named_def AGENT_NAME_def falsy_def template_def listed_def)

subsection \<open>C3: CREATING, CREATING, READY\<close>

text \<open>
  Claim C3, as the code has it: when the first two polls answer \<open>CREATING\<close> and the third
  answers \<open>READY\<close>, \<open>waitForReady\<close> (given at least three polls) sleeps, polls and logs
  three times, sends exactly three \<open>GetAgentRuntimeCommand\<close>s and returns the status
  \<open>READY\<close>. What it returns is the status string of the last response, not the response.
\<close>

theorem creating_creating_ready:
  assumes "GetAgentRuntime cp 0 rid = Inr r0" and "status r0 = Some ''CREATING''"
    and "GetAgentRuntime cp 1 rid = Inr r1" and "status r1 = Some ''CREATING''"
    and "GetAgentRuntime cp 2 rid = Inr r2" and "status r2 = Some ''READY''"
    and "3 \<le> fuel"
  shows "waitForReady fuel cp rid =
           ([Slept 10000, Sent (GetAgentRuntimeCommand rid), ConsoleLog ''  Status: CREATING'',
             Slept 10000, Sent (GetAgentRuntimeCommand rid), ConsoleLog ''  Status: CREATING'',
             Slept 10000, Sent (GetAgentRuntimeCommand rid), ConsoleLog ''  Status: READY''],
            Returned (Some ''READY''))
       \<and> length (filter is_get (sent (fst (waitForReady fuel cp rid)))) = 3"
proof -
  obtain m where fuel: "fuel = Suc (Suc (Suc m))"
    using \<open>3 \<le> fuel\<close> by (auto simp: numeral_3_eq_3 Suc_le_eq dest!: less_imp_Suc_add)
  have third: "waitForReady_from (Suc m) cp 2 rid =
      ([Slept 10000, Sent (GetAgentRuntimeCommand rid), ConsoleLog ''  Status: READY''], Returned (Some ''READY''))"
    using poll_other [OF assms(5), of m] assms(6) by (simp add: template_def del: waitForReady_from.simps)
  have second: "waitForReady_from (Suc (Suc m)) cp 1 rid =
      ([Slept 10000, Sent (GetAgentRuntimeCommand rid), ConsoleLog ''  Status: CREATING'',
        Slept 10000, Sent (GetAgentRuntimeCommand rid), ConsoleLog ''  Status: READY''], Returned (Some ''READY''))"
    using poll_in_progress [OF assms(3), of "Suc m"] assms(4) third
    by (simp add: template_def numeral_2_eq_2 del: waitForReady_from.simps)
  have first: "waitForReady_from (Suc (Suc (Suc m))) cp 0 rid =
      ([Slept 10000, Sent (GetAgentRuntimeCommand rid), ConsoleLog ''  Status: CREATING'',
        Slept 10000, Sent (GetAgentRuntimeCommand rid), ConsoleLog ''  Status: CREATING'',
        Slept 10000, Sent (GetAgentRuntimeCommand rid), ConsoleLog ''  Status: READY''], Returned (Some ''READY''))"
    using poll_in_progress [OF assms(1), of "Suc (Suc m)"] assms(2) second
    by (simp add: template_def del: waitForReady_from.simps)
  then show ?thesis
    by (simp add: waitForReady_def fuel del: waitForReady_from.simps)
qed

text \<open>Witness for C3: a control plane that answers \<open>CREATING\<close> twice and then \<open>READY\<close>.\<close>

theorem creating_creating_ready_witness:
  "waitForReady 5 (example_plane [] (\<lambda>n. descriptor (if n < 2 then ''CREATING'' else ''READY'') None ''arn:rt-new'')) (Some ''rt-new'') =
           ([Slept 10000, Sent (GetAgentRuntimeCommand (Some ''rt-new'')), ConsoleLog ''  Status: CREATING'',
             Slept 10000, Sent (GetAgentRuntimeCommand (Some ''rt-new'')), ConsoleLog ''  Status: CREATING'',
             Slept 10000, Sent (GetAgentRuntimeCommand (Some ''rt-new'')), ConsoleLog ''  Status: READY''],
            Returned (Some ''READY''))
       \<and> length (filter is_get (sent (fst (waitForReady 5 (example_plane [] (\<lambda>n. descriptor (if n < 2 then ''CREATING'' else ''READY'') None ''arn:rt-new'')) (Some ''rt-new''))))) = 3"
  by (rule creating_creating_ready [where ?r0.0 = "descriptor ''CREATING'' None ''arn:rt-new''"
        and ?r1.0 = "descriptor ''CREATING'' None ''arn:rt-new''" and ?r2.0 = "descriptor ''READY'' None ''arn:rt-new''"])
     (simp_all add: descriptor_def)

text \<open>
  Counterexample to C3 as stated (the poller returns the descriptor whose status is
  \<open>READY\<close>): two control planes answer \<open>CREATING\<close>, \<open>CREATING\<close>, \<open>READY\<close> with
  different \<open>READY\<close> descriptors (their ARNs differ), and \<open>waitForReady\<close> gives the same
  result on both, the status \<open>READY\<close>.
\<close>

theorem returns_status_not_descriptor:
  "waitForReady 3 (example_plane [] (\<lambda>n. descriptor (if n < 2 then ''CREATING'' else ''READY'') None ''arn:a'')) (Some ''rt-new'')
   = waitForReady 3 (example_plane [] (\<lambda>n. descriptor (if n < 2 then ''CREATING'' else ''READY'') None ''arn:b'')) (Some ''rt-new'')
   \<and> snd (waitForReady 3 (example_plane [] (\<lambda>n. descriptor (if n < 2 then ''CREATING'' else ''READY'') None ''arn:a'')) (Some ''rt-new''))
     = Returned (Some ''READY'')
   \<and> GetAgentRuntime (example_plane [] (\<lambda>n. descriptor (if n < 2 then ''CREATING'' else ''READY'') None ''arn:a'')) 2 (Some ''rt-new'')
     \<noteq> GetAgentRuntime (example_plane [] (\<lambda>n. descriptor (if n < 2 then ''CREATING'' else ''READY'') None ''arn:b'')) 2 (Some ''rt-new'')"
  by (simp add: waitForReady_def numeral_3_eq_3 send_def console_log_def await_simps descriptor_def template_def)

subsection \<open>C4: a failed status raises at once\<close>

text \<open>
  Claim C4: when the polls before poll \<open>n\<close> were in progress and poll \<open>n\<close> answers
  \<open>CREATE_FAILED\<close> or \<open>UPDATE_FAILED\<close>, \<open>waitForReady\<close> throws an \<open>Error\<close> with the
  message \<open>Deployment failed: \<close> followed by the \<open>failureReason\<close> of that answer, or by
  \<open>Unknown\<close> when the answer has none (or an empty one); the message contains the
  reason, and contains \<open>Unknown\<close> when the reason is absent. It throws at once: poll \<open>n\<close>
  is the last \<open>GetAgentRuntimeCommand\<close> sent.
\<close>

theorem failed_status_raises:
  assumes "\<forall>i<n. \<exists>r. GetAgentRuntime cp i rid = Inr r
             \<and> (status r = Some ''CREATING'' \<or> status r = Some ''UPDATING'')"
    and "GetAgentRuntime cp n rid = Inr res"
    and "status res = Some ''CREATE_FAILED'' \<or> status res = Some ''UPDATE_FAILED''"
    and "n < fuel"
  shows "snd (waitForReady fuel cp rid)
           = Threw (Error (''Deployment failed: '' @ or_else (failureReason res) ''Unknown''))
       \<and> filter is_get (sent (fst (waitForReady fuel cp rid))) = replicate (Suc n) (GetAgentRuntimeCommand rid)
       \<and> (\<forall>reason. failureReason res = Some reason \<longrightarrow>
             sublist reason (''Deployment failed: '' @ or_else (failureReason res) ''Unknown''))
       \<and> (failureReason res = None \<longrightarrow>
             sublist ''Unknown'' (''Deployment failed: '' @ or_else (failureReason res) ''Unknown''))"
proof -
  obtain m where fuel: "fuel = Suc (n + m)"
    using \<open>n < fuel\<close> less_imp_Suc_add by blast
  have "\<forall>i<n. \<exists>r. GetAgentRuntime cp (0 + i) rid = Inr r
          \<and> (status r = Some ''CREATING'' \<or> status r = Some ''UPDATING'')"
    using assms(1) by simp
  from polls_in_progress [OF this, of "Suc m"] poll_failed [OF assms(2,3), of m]
  have "snd (waitForReady fuel cp rid) = Threw (Error (''Deployment failed: '' @ or_else (failureReason res) ''Unknown''))"
    and "filter is_get (sent (fst (waitForReady fuel cp rid))) = replicate (Suc n) (GetAgentRuntimeCommand rid)"
    by (simp_all add: waitForReady_def fuel replicate_append_same del: waitForReady_from.simps)
  moreover have "sublist reason (''Deployment failed: '' @ or_else (Some reason) ''Unknown'')" for reason
  proof (cases "reason = []")
    case True
    then show ?thesis by simp
  next
    case False
    then have "or_else (Some reason) ''Unknown'' = reason" by (simp add: or_else_def)
    then show ?thesis by (simp only: sublist_append_leftI)
  qed
  moreover have "or_else None ''Unknown'' = ''Unknown''"
    by (simp add: or_else_def)
  then have "sublist ''Unknown'' (''Deployment failed: '' @ or_else None ''Unknown'')"
    by (simp only: sublist_append_leftI)
  ultimately show ?thesis by auto
qed

text \<open>
  Witness for C4: \<open>UPDATING\<close>, then \<open>UPDATE_FAILED\<close> with the reason
  \<open>image pull failed\<close>; and \<open>CREATE_FAILED\<close> with no reason at the first poll.
\<close>

theorem failed_status_raises_witness:
  "snd (waitForReady 5 (example_plane [] (\<lambda>n. if n < 1 then descriptor ''UPDATING'' None ''arn:rt''
                                               else descriptor ''UPDATE_FAILED'' (Some ''image pull failed'') ''arn:rt'')) (Some ''rt''))
     = Threw (Error ''Deployment failed: image pull failed'')
   \<and> filter is_get (sent (fst (waitForReady 5 (example_plane [] (\<lambda>n. if n < 1 then descriptor ''UPDATING'' None ''arn:rt''
                                               else descriptor ''UPDATE_FAILED'' (Some ''image pull failed'') ''arn:rt'')) (Some ''rt''))))
     = [GetAgentRuntimeCommand (Some ''rt''), GetAgentRuntimeCommand (Some ''rt'')]
   \<and> sublist ''image pull failed'' ''Deployment failed: image pull failed''
   \<and> snd (waitForReady 5 (example_plane [] (\<lambda>n. descriptor ''CREATE_FAILED'' None ''arn:rt'')) (Some ''rt''))
     = Threw (Error ''Deployment failed: Unknown'')
   \<and> sublist ''Unknown'' ''Deployment failed: Unknown''"
  using failed_status_raises [of 1 "example_plane [] (\<lambda>n. if n < 1 then descriptor ''UPDATING'' None ''arn:rt''
                                               else descriptor ''UPDATE_FAILED'' (Some ''image pull failed'') ''arn:rt'')" "Some ''rt''"
      "descriptor ''UPDATE_FAILED'' (Some ''image pull failed'') ''arn:rt''" 5]
    failed_status_raises [of 0 "example_plane [] (\<lambda>n. descriptor ''CREATE_FAILED'' None ''arn:rt'')" "Some ''rt''"
      "descriptor ''CREATE_FAILED'' None ''arn:rt''" 5]
  by (simp add: descriptor_def or_else_def del: sublist_Cons_right)

subsection \<open>C5: missing configuration\<close>

text \<open>
  Claim C5: when \<open>ROLE_ARN\<close> or \<open>REPO_URI\<close> is unset or empty, the \<open>try\<close> block throws
  the configuration error (an \<open>Error\<close> with the message
  \<open>Missing required environment variables...\<close>) before it does anything else; the script
  prints it and exits with code 1, and no command is sent to the control plane.
\<close>

theorem missing_configuration_no_remote_call:
  assumes "falsy (ROLE_ARN env) \<or> falsy (REPO_URI env)"
  shows "main_flow fuel cp env
           = ([], Threw (Error ''Missing required environment variables. Run setup-prerequisites.sh and export ROLE_ARN and REPO_URI.''))
       \<and> deploy_agent fuel cp env
           = ([ConsoleError ''Deployment failed:''
                 (Error ''Missing required environment variables. Run setup-prerequisites.sh and export ROLE_ARN and REPO_URI.'')],
              Some 1)
       \<and> sent (fst (deploy_agent fuel cp env)) = []"
  using assms by (simp add: main_flow_def deploy_agent_def)

text \<open>Witness for C5: an empty \<open>REPO_URI\<close>, and an unset \<open>ROLE_ARN\<close>.\<close>

theorem missing_configuration_no_remote_call_witness:
  "sent (fst (deploy_agent 4 (example_plane [] (\<lambda>n. descriptor ''READY'' None ''arn:rt-new''))
                \<lparr>ROLE_ARN = Some ''arn:aws:iam::1:role/r'', REPO_URI = Some []\<rparr>)) = []
   \<and> snd (deploy_agent 4 (example_plane [] (\<lambda>n. descriptor ''READY'' None ''arn:rt-new''))
                \<lparr>ROLE_ARN = Some ''arn:aws:iam::1:role/r'', REPO_URI = Some []\<rparr>) = Some 1
   \<and> sent (fst (deploy_agent 4 (example_plane [] (\<lambda>n. descriptor ''READY'' None ''arn:rt-new''))
                \<lparr>ROLE_ARN = None, REPO_URI = Some ''1.dkr.ecr/repo''\<rparr>)) = []"
  using missing_configuration_no_remote_call [of "\<lparr>ROLE_ARN = Some ''arn:aws:iam::1:role/r'', REPO_URI = Some []\<rparr>" 4
          "example_plane [] (\<lambda>n. descriptor ''READY'' None ''arn:rt-new'')"]
        missing_configuration_no_remote_call [of "\<lparr>ROLE_ARN = None, REPO_URI = Some ''1.dkr.ecr/repo''\<rparr>" 4
          "example_plane [] (\<lambda>n. descriptor ''READY'' None ''arn:rt-new'')"]
  by (simp add: falsy_def)

subsection \<open>C6: no prompt, no agent call\<close>



subsection \<open>C7: more than one runtime of the name\<close>

text \<open>
  Claim C7, as the code has it: when the listing has an entry \<open>a\<close> of the name
  \<open>agentcore_deployment\<close> and no entry of that name before it, the script updates \<open>a\<close>
  (one \<open>UpdateAgentRuntimeCommand\<close> with the id of \<open>a\<close>, no create) whatever follows
  \<open>a\<close> in the listing, and the whole run, console output included, is the run on the
  listing that holds \<open>a\<close> alone: later entries of the name are neither an error nor
  mentioned in the log.
\<close>

theorem first_match_is_updated:
  assumes "\<not> falsy (ROLE_ARN env)" and "\<not> falsy (REPO_URI env)"
    and "ListAgentRuntimes cp = Inr response"
    and "listed response = before @ a # after"
    and "\<forall>x \<in> set before. agentRuntimeName x \<noteq> Some AGENT_NAME"
    and "agentRuntimeName a = Some AGENT_NAME"
  shows "deploy_agent fuel cp env = deploy_agent fuel (cp\<lparr>ListAgentRuntimes := Inr \<lparr>agentRuntimes = Some [a]\<rparr>\<rparr>) env
       \<and> filter is_update (sent (fst (deploy_agent fuel cp env)))
           = [UpdateAgentRuntimeCommand (agentRuntimeId a) (template (REPO_URI env) @ '':latest'') (ROLE_ARN env) ''PUBLIC'']
       \<and> filter is_create (sent (fst (deploy_agent fuel cp env))) = []"
proof -
  let ?single = "cp\<lparr>ListAgentRuntimes := Inr \<lparr>agentRuntimes = Some [a]\<rparr>\<rparr>"
  have found: "find (\<lambda>a. agentRuntimeName a = Some AGENT_NAME) (listed response) = Some a"
    using assms(4-6) by (simp add: find_first_match)
  have "find (\<lambda>a. agentRuntimeName a = Some AGENT_NAME) (listed \<lparr>agentRuntimes = Some [a]\<rparr>) = Some a"
    using assms(6) by (simp add: listed_def)
  from main_flow_found [OF assms(1,2) _ this, of ?single fuel]
  have "main_flow fuel ?single env = main_flow fuel cp env"
    by (simp add: main_flow_found [OF assms(1-3) found] update_existing_ignores_listing)
  then have same: "deploy_agent fuel cp env = deploy_agent fuel ?single env"
    by (simp only: deploy_agent_def)
  have "sent (fst (deploy_agent fuel cp env)) = ListAgentRuntimesCommand # sent (fst (update_existing fuel cp env a))"
    by (simp add: sent_deploy_agent main_flow_found [OF assms(1-3) found])
  then show ?thesis
    using same
    by (auto simp: sent_update_existing Let_def no_create_while_waiting no_update_while_waiting split: sum.splits)
qed

text \<open>Witness for C7: the runtimes \<open>rt-1\<close> and \<open>rt-2\<close> both carry the name; \<open>rt-1\<close> is updated.\<close>

theorem first_match_is_updated_witness:
  "deploy_agent 1 (example_plane [named ''rt-1'', named ''rt-2''] (\<lambda>n. descriptor ''READY'' None ''arn:rt'')) example_env
     = deploy_agent 1 ((example_plane [named ''rt-1'', named ''rt-2''] (\<lambda>n. descriptor ''READY'' None ''arn:rt''))
                         \<lparr>ListAgentRuntimes := Inr \<lparr>agentRuntimes = Some [named ''rt-1'']\<rparr>\<rparr>) example_env
   \<and> filter is_update (sent (fst (deploy_agent 1 (example_plane [named ''rt-1'', named ''rt-2''] (\<lambda>n. descriptor ''READY'' None ''arn:rt'')) example_env)))
       = [UpdateAgentRuntimeCommand (Some ''rt-1'') ''1.dkr.ecr/repo:latest'' (Some ''arn:aws:iam::1:role/r'') ''PUBLIC'']
   \<and> filter is_create (sent (fst (deploy_agent 1 (example_plane [named ''rt-1'', named ''rt-2''] (\<lambda>n. descriptor ''READY'' None ''arn:rt'')) example_env))) = []"
proof -
  let ?plane = "example_plane [named ''rt-1'', named ''rt-2''] (\<lambda>n. descriptor ''READY'' None ''arn:rt'')"
  have role: "\<not> falsy (ROLE_ARN example_env)" and repo: "\<not> falsy (REPO_URI example_env)"
    by (simp_all add: example_env_def falsy_def)
  have listing: "ListAgentRuntimes ?plane = Inr \<lparr>agentRuntimes = Some [named ''rt-1'', named ''rt-2'']\<rparr>"
    by (simp add: example_plane_def)
  have split: "listed \<lparr>agentRuntimes = Some [named ''rt-1'', named ''rt-2'']\<rparr> = [] @ named ''rt-1'' # [named ''rt-2'']"
    by (simp add: listed_def)
  have none_before: "\<forall>x \<in> set []. agentRuntimeName x \<noteq> Some AGENT_NAME"
    by simp
  have match: "agentRuntimeName (named ''rt-1'') = Some AGENT_NAME"
    by (simp add: named_def AGENT_NAME_def)
  have command: "UpdateAgentRuntimeCommand (agentRuntimeId (named ''rt-1'')) (template (REPO_URI example_env) @ '':latest'')
                   (ROLE_ARN example_env) ''PUBLIC''
                 = UpdateAgentRuntimeCommand (Some ''rt-1'') ''1.dkr.ecr/repo:latest'' (Some ''arn:aws:iam::1:role/r'') ''PUBLIC''"
    by (simp add: named_def example_env_def template_def)
  from first_match_is_updated [OF role repo listing split none_before match, of 1, unfolded command]
  show ?thesis .
qed

text \<open>
  Counterexample to C7 as stated (the duplicate is a logged anomaly): with \<open>rt-1\<close> and
  \<open>rt-2\<close> both of the name, the events of the run, every console line among them, are
  those of the run where \<open>rt-1\<close> is listed alone, and the script ends with exit code 0.
  Nothing in the output tells the two runs apart.
\<close>

theorem duplicate_not_logged:
  "deploy_agent 1 (example_plane [named ''rt-1'', named ''rt-2''] (\<lambda>n. descriptor ''READY'' None ''arn:rt'')) example_env
   = deploy_agent 1 (example_plane [named ''rt-1''] (\<lambda>n. descriptor ''READY'' None ''arn:rt'')) example_env
   \<and> snd (deploy_agent 1 (example_plane [named ''rt-1'', named ''rt-2''] (\<lambda>n. descriptor ''READY'' None ''arn:rt'')) example_env)
     = Some 0"
  by (simp add: deploy_agent_def main_flow_def findExistingAgent_def update_existing_def waitForReady_def
        example_plane_def example_env_def named_def descriptor_def listed_def AGENT_NAME_def falsy_def template_def
        send_def console_log_def await_simps)

subsection \<open>C8: a session identifier for each call\<close>



subsection \<open>C9: division by zero\<close>

text \<open>
  Claim C9: for the operation \<open>divide\<close> with a second operand that is zero (the test
  \<open>b !== 0\<close> fails), the calculator returns the string \<open>Cannot divide by zero\<close>
  whatever the division operator is, so the division plays no part in the result;
  otherwise it returns the number \<open>a / b\<close>.
\<close>

theorem divide_by_zero_guard:
  "(\<not> js_not_zero js b \<longrightarrow>
      (\<forall>d. calculatorTool (js\<lparr>js_divide := d\<rparr>) Divide a b = StringResult ''Cannot divide by zero''))
   \<and> (js_not_zero js b \<longrightarrow> calculatorTool js Divide a b = NumberResult (js_divide js a b))"
  by (simp add: calculatorTool_def)

text \<open>Witness for C9, over the real numbers: 6 divided by 0, and 6 divided by 3.\<close>

theorem divide_by_zero_guard_witness:
  "calculatorTool real_numbers Divide 6 0 = StringResult ''Cannot divide by zero''
   \<and> calculatorTool real_numbers Divide 6 3 = NumberResult 2"
  using divide_by_zero_guard [of real_numbers 0 6] divide_by_zero_guard [of real_numbers 3 6]
  by (simp add: real_numbers_def)

subsection \<open>C10: the default prompt\<close>

text \<open>
  Claim C10: run with \<open>AGENT_RUNTIME_ARN\<close> set and no prompt on the command line
  (\<open>process.argv\<close> has no element 2), the client sends exactly one command, to that ARN,
  whose payload is the encoded text \<open>What is the weather now?\<close> under the qualifier
  \<open>DEFAULT\<close>; and when the runtime answers with a body, the client prints it and ends
  with exit code 0.
\<close>

theorem default_prompt:
  assumes "length (argv env) \<le> 2" and "AGENT_RUNTIME_ARN env = Some arn" and "arn \<noteq> []"
  shows "invocations_sent (fst (invoke_agent env))
           = [InvokeAgentRuntimeCommand arn (toString_hex (randomBytes env 17))
                (TextEncoder_encode ''What is the weather now?'') ''DEFAULT'']
       \<and> (\<forall>responseBody.
             InvokeAgentRuntime env (InvokeAgentRuntimeCommand arn (toString_hex (randomBytes env 17))
                (TextEncoder_encode ''What is the weather now?'') ''DEFAULT'') = Inr (Some (Inr responseBody)) \<longrightarrow>
             invoke_agent env
               = ([InvokeSent (InvokeAgentRuntimeCommand arn (toString_hex (randomBytes env 17))
                     (TextEncoder_encode ''What is the weather now?'') ''DEFAULT''),
                   Stdout ''Agent Response:'' (Some responseBody)], 0))"
  using assms
  by (auto simp: invoke_agent_def invocations_sent_def Let_def argv_at_def or_else_def falsy_def
           split: sum.splits option.splits)

text \<open>Witness for C10: the command line \<open>node invoke-agent.ts\<close>, with a random source of zero bytes.\<close>

theorem default_prompt_witness:
  "invoke_agent (example_invoke_env [''node'', ''invoke-agent.ts''] 0)
     = ([InvokeSent (InvokeAgentRuntimeCommand ''arn:aws:bedrock-agentcore:us-east-1:1:runtime/rt''
                       ''0000000000000000000000000000000000''
                       (TextEncoder_encode ''What is the weather now?'') ''DEFAULT''),
         Stdout ''Agent Response:'' (Some ''sunny'')], 0)"
proof -
  have hex: "toString_hex (replicate 17 0) = ''0000000000000000000000000000000000''"
    by code_simp
  from default_prompt [of "example_invoke_env [''node'', ''invoke-agent.ts''] 0"
      "''arn:aws:bedrock-agentcore:us-east-1:1:runtime/rt''"]
  show ?thesis
    by (simp add: example_invoke_env_def hex)
qed

end
